theory Spec2Isabelle
  imports Complex_Main
begin

section \<open>Python values used by order\_create.py\<close>

text \<open>
  A Python float. A finite value is kept as the exact rational it was written as; the
  rounding of CPython to the nearest binary64 value (and with it overflow to an infinity
  and underflow to zero) is not modelled, so \<open>Finite q\<close> is exact only where \<open>q\<close> is
  representable. The theorems below never depend on a rounded digit.
\<close>

datatype pyfloat = Finite rat | PosInf | NegInf | NaN

text \<open>
  What \<open>response.json()\<close> returns and what \<open>json=payload\<close> sends: \<open>None\<close>,
  \<open>bool\<close>, \<open>int\<close>, \<open>float\<close>, \<open>str\<close>, \<open>list\<close>, \<open>dict\<close>. A dict is an
  association list in insertion order; a lookup takes the first entry of a key.
\<close>

datatype json =
    JNull
  | JBool bool
  | JInt int
  | JFloat pyfloat
  | JStr string
  | JArr "json list"
  | JObj "(string \<times> json) list"

datatype py_error =
    HTTPError
  | RequestException
  | JSONDecodeError
  | AttributeError
  | TypeError
  | ValueError
  | IndexError
  | EOFError

definition bindE :: "py_error + 'a \<Rightarrow> ('a \<Rightarrow> py_error + 'b) \<Rightarrow> py_error + 'b" where
  "bindE m f = (case m of Inl e \<Rightarrow> Inl e | Inr a \<Rightarrow> f a)"

fun mapE :: "('a \<Rightarrow> py_error + 'b) \<Rightarrow> 'a list \<Rightarrow> py_error + 'b list" where
  "mapE f [] = Inr []"
| "mapE f (x # xs) = bindE (f x) (\<lambda>y. bindE (mapE f xs) (\<lambda>ys. Inr (y # ys)))"

text \<open>Truth value of a Python object, as \<open>if x:\<close> and \<open>not x\<close> test it.\<close>

fun truthy :: "json \<Rightarrow> bool" where
  "truthy JNull = False"
| "truthy (JBool b) = b"
| "truthy (JInt i) = (i \<noteq> 0)"
| "truthy (JFloat f) = (f \<noteq> Finite 0)"
| "truthy (JStr s) = (s \<noteq> [])"
| "truthy (JArr xs) = (xs \<noteq> [])"
| "truthy (JObj kvs) = (kvs \<noteq> [])"

text \<open>\<open>d.get(key, default)\<close>: only a dict has the method.\<close>

fun dict_get :: "json \<Rightarrow> string \<Rightarrow> json \<Rightarrow> py_error + json" where
  "dict_get (JObj kvs) k d = Inr (case map_of kvs k of None \<Rightarrow> d | Some v \<Rightarrow> v)"
| "dict_get _ k d = Inl AttributeError"

text \<open>\<open>len(x)\<close>: defined on str, list and dict.\<close>

fun py_len :: "json \<Rightarrow> py_error + nat" where
  "py_len (JStr s) = Inr (length s)"
| "py_len (JArr xs) = Inr (length xs)"
| "py_len (JObj kvs) = Inr (length kvs)"
| "py_len _ = Inl TypeError"

text \<open>
  \<open>for x in v\<close>: a list yields its elements, a str its characters, a dict its keys;
  nothing else is iterable.
\<close>

fun py_iter :: "json \<Rightarrow> py_error + json list" where
  "py_iter (JArr xs) = Inr xs"
| "py_iter (JStr s) = Inr (map (\<lambda>c. JStr [c]) s)"
| "py_iter (JObj kvs) = Inr (map (\<lambda>kv. JStr (fst kv)) kvs)"
| "py_iter _ = Inl TypeError"

text \<open>
  \<open>for x in a + b\<close>: the sum of two lists or of two strs is iterated; the sum of two
  numbers exists but is not iterable, and every other pair has no \<open>+\<close>. Both ways the
  statement raises TypeError.
\<close>

fun iter_sum :: "json \<Rightarrow> json \<Rightarrow> py_error + json list" where
  "iter_sum (JArr xs) (JArr ys) = Inr (xs @ ys)"
| "iter_sum (JStr s) (JStr t) = py_iter (JStr (s @ t))"
| "iter_sum _ _ = Inl TypeError"

subsection \<open>Strings read from the operator\<close>

text \<open>
  A string is a list of bytes here. \<open>strip\<close>, \<open>int\<close> and \<open>float\<close> are modelled
  on ASCII: the spaces and decimal digits of Unicode beyond ASCII, which Python accepts
  too, are outside the model.
\<close>

definition is_space :: "char \<Rightarrow> bool" where
  "is_space c = (c \<in> set [CHR 0x09, CHR 0x0A, CHR 0x0B, CHR 0x0C, CHR 0x0D,
                            CHR 0x1C, CHR 0x1D, CHR 0x1E, CHR 0x1F, CHR '' ''])"

definition strip :: "string \<Rightarrow> string" where
  "strip s = rev (dropWhile is_space (rev (dropWhile is_space s)))"

definition digit_val :: "char \<Rightarrow> nat option" where
  "digit_val c = map_of (zip ''0123456789'' [0, 1, 2, 3, 4, 5, 6, 7, 8, 9]) c"

text \<open>
  \<open>digit (["_"] digit)*\<close>: the digits of a literal, most significant first. An
  underscore stands only between two digits.
\<close>

fun digitpart_rest :: "string \<Rightarrow> nat list option" where
  "digitpart_rest [] = Some []"
| "digitpart_rest (c # cs) =
     (case digit_val c of
        Some d \<Rightarrow> map_option ((#) d) (digitpart_rest cs)
      | None \<Rightarrow>
          (if c = CHR ''_'' then
             (case cs of
                [] \<Rightarrow> None
              | c' # cs' \<Rightarrow>
                  (case digit_val c' of
                     None \<Rightarrow> None
                   | Some d \<Rightarrow> map_option ((#) d) (digitpart_rest cs')))
           else None))"

definition digitpart :: "string \<Rightarrow> nat list option" where
  "digitpart s =
     (case s of
        [] \<Rightarrow> None
      | c # cs \<Rightarrow>
          (case digit_val c of
             None \<Rightarrow> None
           | Some d \<Rightarrow> map_option ((#) d) (digitpart_rest cs)))"

definition digits_value :: "nat list \<Rightarrow> nat" where
  "digits_value ds = foldl (\<lambda>acc d. 10 * acc + d) 0 ds"

text \<open>An optional sign in front of the rest of a literal.\<close>

definition split_sign :: "string \<Rightarrow> bool \<times> string" where
  "split_sign s =
     (case s of
        [] \<Rightarrow> (False, [])
      | c # cs \<Rightarrow>
          (if c = CHR ''-'' then (True, cs)
           else if c = CHR ''+'' then (False, cs)
           else (False, s)))"

text \<open>\<open>int(s)\<close> in base 10; \<open>None\<close> is ValueError.\<close>

definition py_int :: "string \<Rightarrow> int option" where
  "py_int s =
     (case split_sign (strip s) of
        (neg, body) \<Rightarrow>
          map_option (\<lambda>ds. if neg then - int (digits_value ds) else int (digits_value ds))
            (digitpart body))"

definition lower :: "string \<Rightarrow> string" where
  "lower s =
     map (\<lambda>c. case map_of (zip ''ABCDEFGHIJKLMNOPQRSTUVWXYZ'' ''abcdefghijklmnopqrstuvwxyz'') c of
                 None \<Rightarrow> c | Some l \<Rightarrow> l) s"

text \<open>The text before the first character satisfying \<open>P\<close>, and the text after it.\<close>

definition split_at :: "(char \<Rightarrow> bool) \<Rightarrow> string \<Rightarrow> string \<times> string option" where
  "split_at P s =
     (case dropWhile (\<lambda>c. \<not> P c) s of
        [] \<Rightarrow> (s, None)
      | _ # r \<Rightarrow> (takeWhile (\<lambda>c. \<not> P c) s, Some r))"

text \<open>\<open>[digitpart] "." digitpart | digitpart ["."]\<close>: integer and fraction digits.\<close>

definition number :: "string \<Rightarrow> (nat list \<times> nat list) option" where
  "number s =
     (case split_at (\<lambda>c. c = CHR ''.'') s of
        (a, None) \<Rightarrow> map_option (\<lambda>ds. (ds, [])) (digitpart a)
      | (a, Some b) \<Rightarrow>
          (if a = [] then map_option (\<lambda>ds. ([], ds)) (digitpart b)
           else if b = [] then map_option (\<lambda>ds. (ds, [])) (digitpart a)
           else (case digitpart a of
                   None \<Rightarrow> None
                 | Some ds \<Rightarrow> map_option (\<lambda>fs. (ds, fs)) (digitpart b))))"

text \<open>\<open>("e" | "E") [sign] digitpart\<close>, already cut after the letter.\<close>

definition exponent :: "string \<Rightarrow> int option" where
  "exponent s =
     (case split_sign s of
        (neg, body) \<Rightarrow>
          map_option (\<lambda>ds. if neg then - int (digits_value ds) else int (digits_value ds))
            (digitpart body))"

definition scale10 :: "rat \<Rightarrow> int \<Rightarrow> rat" where
  "scale10 q e = (if 0 \<le> e then q * 10 ^ nat e else q / 10 ^ nat (- e))"

definition floatnumber :: "string \<Rightarrow> rat option" where
  "floatnumber s =
     (case split_at (\<lambda>c. c = CHR ''e'' \<or> c = CHR ''E'') s of
        (m, x) \<Rightarrow>
          (case number m of
             None \<Rightarrow> None
           | Some (ds, fs) \<Rightarrow>
               (let q = of_nat (digits_value ds) + of_nat (digits_value fs) / 10 ^ length fs
                in case x of
                     None \<Rightarrow> Some q
                   | Some t \<Rightarrow> map_option (scale10 q) (exponent t))))"

text \<open>\<open>float(s)\<close>; \<open>None\<close> is ValueError.\<close>

definition py_float :: "string \<Rightarrow> pyfloat option" where
  "py_float s =
     (case split_sign (strip s) of
        (neg, body) \<Rightarrow>
          (if lower body = ''inf'' \<or> lower body = ''infinity''
             then Some (if neg then NegInf else PosInf)
           else if lower body = ''nan'' then Some NaN
           else map_option (\<lambda>q. Finite (if neg then - q else q)) (floatnumber body)))"

text \<open>\<open>a * b\<close> on floats.\<close>

fun fmul :: "pyfloat \<Rightarrow> pyfloat \<Rightarrow> pyfloat" where
  "fmul (Finite a) (Finite b) = Finite (a * b)"
| "fmul NaN _ = NaN"
| "fmul _ NaN = NaN"
| "fmul (Finite a) PosInf = (if a = 0 then NaN else if 0 < a then PosInf else NegInf)"
| "fmul (Finite a) NegInf = (if a = 0 then NaN else if 0 < a then NegInf else PosInf)"
| "fmul PosInf (Finite b) = (if b = 0 then NaN else if 0 < b then PosInf else NegInf)"
| "fmul NegInf (Finite b) = (if b = 0 then NaN else if 0 < b then NegInf else PosInf)"
| "fmul PosInf PosInf = PosInf"
| "fmul PosInf NegInf = NegInf"
| "fmul NegInf PosInf = NegInf"
| "fmul NegInf NegInf = PosInf"




text \<open>\<open>xs[i]\<close> on a list, for \<open>i\<close> not negative.\<close>

definition py_index :: "json list \<Rightarrow> nat \<Rightarrow> py_error + json" where
  "py_index xs i = (if i < length xs then Inr (xs ! i) else Inl IndexError)"

section \<open>The HTTP client, the console and the process environment\<close>

text \<open>
  A header value is a literal or the f-string \<open>f"Bearer {token}"\<close>, kept with the
  object that was formatted into it.
\<close>

datatype header_value = Plain string | Bearer json

record http_request =
  req_method :: string
  req_url :: string
  req_headers :: "(string \<times> header_value) list"
  req_json :: "json option"
  req_timeout :: "nat option"

text \<open>
  What \<open>requests.get\<close> and \<open>requests.post\<close> give back: an exception of the
  transport (no connection, timeout), or a response with its status code and its body,
  where the body is \<open>Some v\<close> when \<open>response.json()\<close> parses it to \<open>v\<close> and
  \<open>None\<close> when it is not JSON.
\<close>

datatype http_reply = NoReply | Reply int "json option"

text \<open>
  Everything outside the script: the remote service, which answers a request knowing the
  requests it has received before; the requests sent so far; the lines the operator will
  type; the values \<open>uuid.uuid4()\<close> will draw; the API\_LOGIN of the environment
  (\<open>os.getenv\<close> gives a str or None).
\<close>

record world =
  server :: "http_request list \<Rightarrow> http_request \<Rightarrow> http_reply"
  sent :: "http_request list"
  stdin :: "string list"
  uuid_source :: "nat \<Rightarrow> string"
  uuid_count :: nat
  API_LOGIN :: json

definition requests_send :: "http_request \<Rightarrow> world \<Rightarrow> http_reply \<times> world" where
  "requests_send rq w = (server w (sent w) rq, w\<lparr>sent := sent w @ [rq]\<rparr>)"

definition uuid4 :: "world \<Rightarrow> string \<times> world" where
  "uuid4 w = (uuid_source w (uuid_count w), w\<lparr>uuid_count := Suc (uuid_count w)\<rparr>)"

text \<open>\<open>response.raise_for_status()\<close>: HTTPError for a 4xx or 5xx status code.\<close>

definition raise_for_status :: "int \<Rightarrow> py_error + unit" where
  "raise_for_status st = (if 400 \<le> st \<and> st < 600 then Inl HTTPError else Inr ())"

definition response_json :: "json option \<Rightarrow> py_error + json" where
  "response_json body = (case body of None \<Rightarrow> Inl JSONDecodeError | Some v \<Rightarrow> Inr v)"

text \<open>
  The three statements every function of the script starts its \<open>try\<close> block with:
  the request, \<open>raise_for_status\<close>, \<open>data = response.json()\<close>.
\<close>

definition response_data :: "http_reply \<Rightarrow> py_error + json" where
  "response_data r =
     (case r of
        NoReply \<Rightarrow> Inl RequestException
      | Reply st body \<Rightarrow> bindE (raise_for_status st) (\<lambda>_. response_json body))"

section \<open>The lookups\<close>

definition access_token_url :: string where
  "access_token_url = ''https://api-eu.syrve.live/api/1/access_token''"

definition organizations_url :: string where
  "organizations_url = ''https://api-eu.syrve.live/api/1/organizations''"

definition terminal_groups_url :: string where
  "terminal_groups_url = ''https://api-eu.syrve.live/api/1/terminal_groups''"

definition sections_url :: string where
  "sections_url = ''https://api-eu.syrve.live/api/1/reserve/available_restaurant_sections''"

definition payment_types_url :: string where
  "payment_types_url = ''https://api-eu.syrve.live/api/1/payment_types''"

definition order_create_url :: string where
  "order_create_url = ''https://api-eu.syrve.live/api/1/order/create''"

definition auth_headers :: "json \<Rightarrow> (string \<times> header_value) list" where
  "auth_headers token =
     [(''Authorization'', Bearer token), (''Content-Type'', Plain ''application/json'')]"

subsection \<open>get\_access\_token\<close>

definition access_token_request :: "json \<Rightarrow> http_request" where
  "access_token_request api_login =
     \<lparr>req_method = ''POST'', req_url = access_token_url,
      req_headers = [(''Content-Type'', Plain ''application/json'')],
      req_json = Some (JObj [(''apiLogin'', api_login)]),
      req_timeout = None\<rparr>"

definition access_token_try :: "http_reply \<Rightarrow> py_error + json" where
  "access_token_try r =
     bindE (response_data r) (\<lambda>data.
     bindE (dict_get data ''token'' JNull) (\<lambda>token.
       Inr (if \<not> truthy token then JNull else token)))"

definition get_access_token :: "json \<Rightarrow> world \<Rightarrow> json \<times> world" where
  "get_access_token api_login w =
     (case requests_send (access_token_request api_login) w of
        (r, w') \<Rightarrow>
          (case access_token_try r of
             Inr token \<Rightarrow> (token, w')
           | Inl err \<Rightarrow> (JNull, w')))"

subsection \<open>get\_organizations\<close>

definition organizations_request :: "json \<Rightarrow> http_request" where
  "organizations_request token =
     \<lparr>req_method = ''GET'', req_url = organizations_url,
      req_headers = [(''Authorization'', Bearer token)],
      req_json = None, req_timeout = None\<rparr>"

definition organizations_try :: "http_reply \<Rightarrow> py_error + json" where
  "organizations_try r =
     bindE (response_data r) (\<lambda>data.
     bindE (dict_get data ''organizations'' (JArr [])) (\<lambda>organizations.
     bindE (py_len organizations) (\<lambda>_. Inr organizations)))"

definition get_organizations :: "json \<Rightarrow> world \<Rightarrow> json \<times> world" where
  "get_organizations token w =
     (case requests_send (organizations_request token) w of
        (r, w') \<Rightarrow>
          (case organizations_try r of
             Inr organizations \<Rightarrow> (organizations, w')
           | Inl err \<Rightarrow> (JArr [], w')))"

subsection \<open>get\_terminal\_groups\<close>

definition terminal_groups_request :: "json \<Rightarrow> json \<Rightarrow> http_request" where
  "terminal_groups_request token organization_ids =
     \<lparr>req_method = ''POST'', req_url = terminal_groups_url,
      req_headers = auth_headers token,
      req_json = Some (JObj [(''organizationIds'', organization_ids),
                             (''includeDisabled'', JBool True),
                             (''returnExternalData'', JArr [JStr ''string''])]),
      req_timeout = None\<rparr>"

text \<open>The body of the inner loop: what one item appends to \<open>terminal_groups\<close>.\<close>

definition item_group :: "json \<Rightarrow> json \<Rightarrow> py_error + json list" where
  "item_group organization_id item =
     bindE (dict_get item ''id'' JNull) (\<lambda>tg_id.
     bindE (dict_get item ''name'' (JStr ''NoName'')) (\<lambda>tg_name.
       Inr (if truthy tg_id
            then [JObj [(''id'', tg_id), (''name'', tg_name),
                        (''organizationId'', organization_id)]]
            else [])))"

text \<open>The body of the outer loop: what one \<open>group_block\<close> appends.\<close>

definition block_groups :: "json \<Rightarrow> py_error + json list" where
  "block_groups group_block =
     bindE (dict_get group_block ''items'' (JArr [])) (\<lambda>items.
     bindE (dict_get group_block ''organizationId'' JNull) (\<lambda>organization_id.
     bindE (py_iter items) (\<lambda>its.
     bindE (mapE (item_group organization_id) its) (\<lambda>gs. Inr (concat gs)))))"

text \<open>The blocks the outer loop runs over: \<open>terminal_groups_data\<close>.\<close>

definition terminal_groups_data :: "http_reply \<Rightarrow> py_error + json list" where
  "terminal_groups_data r =
     bindE (response_data r) (\<lambda>data.
     bindE (dict_get data ''terminalGroups'' (JArr [])) (\<lambda>active.
     bindE (dict_get data ''terminalGroupsInSleep'' (JArr [])) (\<lambda>asleep.
       iter_sum active asleep)))"

definition terminal_groups_try :: "http_reply \<Rightarrow> py_error + json list" where
  "terminal_groups_try r =
     bindE (terminal_groups_data r) (\<lambda>blocks.
     bindE (mapE block_groups blocks) (\<lambda>gss. Inr (concat gss)))"

definition get_terminal_groups :: "json \<Rightarrow> json \<Rightarrow> world \<Rightarrow> json \<times> world" where
  "get_terminal_groups token organization_ids w =
     (case requests_send (terminal_groups_request token organization_ids) w of
        (r, w') \<Rightarrow>
          (case terminal_groups_try r of
             Inr terminal_groups \<Rightarrow> (JArr terminal_groups, w')
           | Inl err \<Rightarrow> (JArr [], w')))"

subsection \<open>get\_available\_restaurant\_sections\<close>

definition sections_request :: "json \<Rightarrow> json \<Rightarrow> http_request" where
  "sections_request token terminal_group_ids =
     \<lparr>req_method = ''POST'', req_url = sections_url,
      req_headers = auth_headers token,
      req_json = Some (JObj [(''terminalGroupIds'', terminal_group_ids),
                             (''returnSchema'', JBool False),
                             (''revision'', JInt 0)]),
      req_timeout = Some 10\<rparr>"

definition sections_try :: "http_reply \<Rightarrow> py_error + json" where
  "sections_try r =
     bindE (response_data r) (\<lambda>data.
     bindE (dict_get data ''restaurantSections'' (JArr [])) (\<lambda>restaurant_sections.
     bindE (py_len restaurant_sections) (\<lambda>_. Inr restaurant_sections)))"

definition get_available_restaurant_sections :: "json \<Rightarrow> json \<Rightarrow> world \<Rightarrow> json \<times> world" where
  "get_available_restaurant_sections token terminal_group_ids w =
     (case requests_send (sections_request token terminal_group_ids) w of
        (r, w') \<Rightarrow>
          (case sections_try r of
             Inr restaurant_sections \<Rightarrow> (restaurant_sections, w')
           | Inl err \<Rightarrow> (JArr [], w')))"

subsection \<open>get\_payment\_types\<close>

definition payment_types_request :: "json \<Rightarrow> json \<Rightarrow> http_request" where
  "payment_types_request token organization_ids =
     \<lparr>req_method = ''POST'', req_url = payment_types_url,
      req_headers = auth_headers token,
      req_json = Some (JObj [(''organizationIds'', organization_ids)]),
      req_timeout = Some 10\<rparr>"

definition payment_types_try :: "http_reply \<Rightarrow> py_error + json" where
  "payment_types_try r =
     bindE (response_data r) (\<lambda>data.
     bindE (dict_get data ''paymentTypes'' (JArr [])) (\<lambda>payment_types.
     bindE (py_len payment_types) (\<lambda>_. Inr payment_types)))"

definition get_payment_types :: "json \<Rightarrow> json \<Rightarrow> world \<Rightarrow> json \<times> world" where
  "get_payment_types token organization_ids w =
     (case requests_send (payment_types_request token organization_ids) w of
        (r, w') \<Rightarrow>
          (case payment_types_try r of
             Inr payment_types \<Rightarrow> (payment_types, w')
           | Inl err \<Rightarrow> (JArr [], w')))"

section \<open>create\_order\<close>

text \<open>The \<open>payload\<close> dict literal of \<open>create_order\<close>.\<close>

definition order_payload ::
  "json \<Rightarrow> json \<Rightarrow> json \<Rightarrow> string \<Rightarrow> string \<Rightarrow> string \<Rightarrow> pyfloat \<Rightarrow> pyfloat \<Rightarrow> json \<Rightarrow> pyfloat
     \<Rightarrow> string \<Rightarrow> string \<Rightarrow> json" where
  "order_payload organization_id terminal_group_id table_id customer_name customer_phone
       product_id product_price product_quantity payment_type_id payment_sum
       order_id position_id =
     JObj [
       (''organizationId'', organization_id),
       (''terminalGroupId'', terminal_group_id),
       (''order'', JObj [
          (''id'', JStr order_id),
          (''tableIds'', JArr [table_id]),
          (''customer'', JObj [(''name'', JStr customer_name), (''type'', JStr ''regular'')]),
          (''phone'', JStr customer_phone),
          (''items'', JArr [
             JObj [(''positionId'', JStr position_id),
                   (''productId'', JStr product_id),
                   (''type'', JStr ''Product''),
                   (''price'', JFloat product_price),
                   (''amount'', JFloat product_quantity)]]),
          (''payments'', JArr [
             JObj [(''paymentTypeKind'', JStr ''Cash''),
                   (''sum'', JFloat payment_sum),
                   (''paymentTypeId'', payment_type_id),
                   (''isProcessedExternally'', JBool False),
                   (''isFiscalizedExternally'', JBool False),
                   (''isPrepay'', JBool False)]])]),
       (''createOrderSettings'', JObj [
          (''servicePrint'', JBool False),
          (''transportToFrontTimeout'', JInt 15),
          (''checkStopList'', JBool False)])]"

definition order_create_request :: "json \<Rightarrow> json \<Rightarrow> http_request" where
  "order_create_request token payload =
     \<lparr>req_method = ''POST'', req_url = order_create_url,
      req_headers = auth_headers token,
      req_json = Some payload,
      req_timeout = Some 15\<rparr>"

definition create_order ::
  "json \<Rightarrow> json \<Rightarrow> json \<Rightarrow> json \<Rightarrow> string \<Rightarrow> string \<Rightarrow> string \<Rightarrow> pyfloat \<Rightarrow> pyfloat \<Rightarrow> json
     \<Rightarrow> pyfloat \<Rightarrow> world \<Rightarrow> json \<times> world" where
  "create_order token organization_id terminal_group_id table_id customer_name customer_phone
       product_id product_price product_quantity payment_type_id payment_sum w =
     (case uuid4 w of
        (order_id, w1) \<Rightarrow>
          (case uuid4 w1 of
             (position_id, w2) \<Rightarrow>
               (case requests_send
                       (order_create_request token
                          (order_payload organization_id terminal_group_id table_id
                             customer_name customer_phone product_id product_price
                             product_quantity payment_type_id payment_sum
                             order_id position_id)) w2 of
                  (r, w3) \<Rightarrow>
                    (case response_data r of
                       Inr data \<Rightarrow> (data, w3)
                     | Inl err \<Rightarrow> (JObj [], w3)))))"

section \<open>main\<close>

text \<open>
  How a run of \<open>main\<close> ends: at one of its \<open>return\<close> statements, named after the
  message printed there; after \<open>create_order\<close>, with a result that is true or not;
  or with an exception that nothing catches.
\<close>

datatype outcome =
    NoAccessToken
  | NoOrganizations
  | BadOrganizationNumber
  | OrganizationNotInteger
  | NoTerminalGroups
  | BadTerminalGroupNumber
  | TerminalGroupNotInteger
  | NoSections
  | NoTables
  | BadTableNumber
  | TableNotInteger
  | BadPaymentTypeNumber
  | NoProductId
  | BadPriceOrQuantity
  | OrderCreated json
  | OrderNotCreated json
  | Uncaught py_error

text \<open>
  A stretch of \<open>main\<close>: it changes the world and either leaves \<open>main\<close> (\<open>Inl\<close>)
  or hands a value to the statements after it (\<open>Inr\<close>).
\<close>

type_synonym 'a step = "world \<Rightarrow> (outcome + 'a) \<times> world"

definition returnS :: "'a \<Rightarrow> 'a step" where
  "returnS a = (\<lambda>w. (Inr a, w))"

definition abortS :: "outcome \<Rightarrow> 'a step" where
  "abortS out = (\<lambda>w. (Inl out, w))"

definition bindS :: "'a step \<Rightarrow> ('a \<Rightarrow> 'b step) \<Rightarrow> 'b step" where
  "bindS m f = (\<lambda>w. case m w of (Inl out, w') \<Rightarrow> (Inl out, w') | (Inr a, w') \<Rightarrow> f a w')"

text \<open>An expression of \<open>main\<close> outside every \<open>try\<close>: its exception ends the run.\<close>

definition liftS :: "py_error + 'a \<Rightarrow> 'a step" where
  "liftS m = (case m of Inl e \<Rightarrow> abortS (Uncaught e) | Inr a \<Rightarrow> returnS a)"

text \<open>\<open>input(prompt)\<close>: the next line of the operator; EOFError when there is none.\<close>

definition input_line :: "string step" where
  "input_line =
     (\<lambda>w. case stdin w of
             [] \<Rightarrow> (Inl (Uncaught EOFError), w)
           | l # ls \<Rightarrow> (Inr l, w\<lparr>stdin := ls\<rparr>))"

text \<open>
  The loops that print a numbered list call \<open>.get\<close> on every element, with the keys
  given; the elements are handed on when no call raised.
\<close>

definition printed :: "string list \<Rightarrow> json \<Rightarrow> py_error + json list" where
  "printed keys v =
     bindE (py_iter v) (\<lambda>xs.
       mapE (\<lambda>x. bindE (mapE (\<lambda>k. dict_get x k JNull) keys) (\<lambda>_. Inr x)) xs)"

text \<open>
  The selection code written out three times in \<open>main\<close> (organization, terminal group,
  table): \<open>int\<close> of the line typed, the range check against the length of the list, and
  the position chosen, counted from 0.
\<close>

definition select_index :: "nat \<Rightarrow> outcome \<Rightarrow> outcome \<Rightarrow> nat step" where
  "select_index n bad_number not_integer =
     bindS input_line (\<lambda>line.
       case py_int line of
         None \<Rightarrow> abortS not_integer
       | Some i \<Rightarrow>
           (if i < 1 \<or> i > int n then abortS bad_number else returnS (nat (i - 1))))"

text \<open>Step 1 of \<open>main\<close>: the token.\<close>

definition main_token :: "json step" where
  "main_token =
     (\<lambda>w. case get_access_token (API_LOGIN w) w of
             (token, w') \<Rightarrow>
               (if \<not> truthy token then (Inl NoAccessToken, w') else (Inr token, w')))"

text \<open>Step 2: the organizations and the operator's choice; gives \<open>organization_id\<close>.\<close>

definition main_organization :: "json \<Rightarrow> json step" where
  "main_organization token =
     (\<lambda>w. case get_organizations token w of
             (organizations, w') \<Rightarrow>
               (if \<not> truthy organizations then (Inl NoOrganizations, w')
                else
                  bindS (liftS (printed [''name'', ''id''] organizations)) (\<lambda>orgs.
                  bindS (select_index (length orgs) BadOrganizationNumber OrganizationNotInteger)
                    (\<lambda>i.
                  liftS (bindE (py_index orgs i) (\<lambda>org. dict_get org ''id'' JNull)))) w'))"

text \<open>Step 3: the terminal groups of that organization; gives \<open>terminal_group_id\<close>.\<close>

definition main_terminal_group :: "json \<Rightarrow> json \<Rightarrow> json step" where
  "main_terminal_group token organization_id =
     (\<lambda>w. case get_terminal_groups token (JArr [organization_id]) w of
             (terminal_groups, w') \<Rightarrow>
               (if \<not> truthy terminal_groups then (Inl NoTerminalGroups, w')
                else
                  bindS (liftS (printed [''name'', ''id''] terminal_groups)) (\<lambda>tgs.
                  bindS (select_index (length tgs) BadTerminalGroupNumber
                           TerminalGroupNotInteger) (\<lambda>i.
                  liftS (bindE (py_index tgs i) (\<lambda>tg. dict_get tg ''id'' JNull)))) w'))"

text \<open>The inner loop over the tables of one section: the ids it adds to \<open>table_dict\<close>.\<close>

definition section_tables :: "json \<Rightarrow> py_error + json list" where
  "section_tables section_v =
     bindE (dict_get section_v ''name'' (JStr ''NoSectionName'')) (\<lambda>section_name.
     bindE (dict_get section_v ''tables'' (JArr [])) (\<lambda>tables.
     bindE (py_iter tables) (\<lambda>tbls.
       mapE (\<lambda>tbl. bindE (dict_get tbl ''id'' JNull) (\<lambda>table_id.
                    bindE (dict_get tbl ''name'' JNull) (\<lambda>table_name. Inr table_id))) tbls)))"

text \<open>
  \<open>table_dict\<close> after the loop over the sections: its keys are 1, 2, ... in the order
  of insertion, so it is the list of its values.
\<close>

definition table_dict :: "json \<Rightarrow> py_error + json list" where
  "table_dict sections =
     bindE (py_iter sections) (\<lambda>secs.
     bindE (mapE section_tables secs) (\<lambda>tss. Inr (concat tss)))"

text \<open>Step 4: the sections of that terminal group and the table chosen; gives \<open>table_id\<close>.\<close>

definition main_table :: "json \<Rightarrow> json \<Rightarrow> json step" where
  "main_table token terminal_group_id =
     (\<lambda>w. case get_available_restaurant_sections token (JArr [terminal_group_id]) w of
             (sections, w') \<Rightarrow>
               (if \<not> truthy sections then (Inl NoSections, w')
                else
                  bindS (liftS (table_dict sections)) (\<lambda>tbl_ids.
                    if tbl_ids = [] then abortS NoTables
                    else
                      bindS (select_index (length tbl_ids) BadTableNumber TableNotInteger)
                        (\<lambda>i. liftS (py_index tbl_ids i))) w'))"

text \<open>Step 5: the payment types of the organization; gives \<open>payment_type_id\<close>.\<close>

definition main_payment_type :: "json \<Rightarrow> json \<Rightarrow> json step" where
  "main_payment_type token organization_id =
     (\<lambda>w. case get_payment_types token (JArr [organization_id]) w of
             (payment_types, w') \<Rightarrow>
               (if truthy payment_types then
                  bindS (liftS (printed [''name'', ''paymentTypeKind'', ''id''] payment_types))
                    (\<lambda>pts.
                  bindS input_line (\<lambda>pt_index.
                    if strip pt_index \<noteq> [] then
                      (case py_int pt_index of
                         Some i \<Rightarrow>
                           (if i < 1 \<or> i > int (length pts) then abortS BadPaymentTypeNumber
                            else liftS (bindE (py_index pts (nat (i - 1)))
                                          (\<lambda>pt. dict_get pt ''id'' JNull)))
                       | None \<Rightarrow>
                           liftS (bindE (py_index pts 0) (\<lambda>pt. dict_get pt ''id'' JNull)))
                    else liftS (bindE (py_index pts 0) (\<lambda>pt. dict_get pt ''id'' JNull)))) w'
                else bindS input_line (\<lambda>line. returnS (JStr line)) w'))"

text \<open>Steps 6 to 8: what the operator types about the customer, the product and the sum.\<close>

record order_details =
  customer_name :: string
  customer_phone :: string
  product_id :: string
  product_price :: pyfloat
  product_quantity :: pyfloat
  payment_sum :: pyfloat

definition main_details :: "order_details step" where
  "main_details =
     bindS input_line (\<lambda>name_input.
     bindS input_line (\<lambda>phone_input.
     bindS input_line (\<lambda>product_input.
       if strip product_input = [] then abortS NoProductId
       else
         bindS input_line (\<lambda>price_input.
           case py_float price_input of
             None \<Rightarrow> abortS BadPriceOrQuantity
           | Some price \<Rightarrow>
               bindS input_line (\<lambda>quantity_input.
                 case py_float quantity_input of
                   None \<Rightarrow> abortS BadPriceOrQuantity
                 | Some quantity \<Rightarrow>
                     bindS input_line (\<lambda>payment_sum_input.
                       returnS
                         \<lparr>customer_name =
                            (if strip name_input = [] then ''Guest'' else name_input),
                          customer_phone = phone_input,
                          product_id = product_input,
                          product_price = price,
                          product_quantity = quantity,
                          payment_sum =
                            (if strip payment_sum_input \<noteq> [] then
                               (case py_float payment_sum_input of
                                  Some s \<Rightarrow> s
                                | None \<Rightarrow> fmul price quantity)
                             else fmul price quantity)\<rparr>))))))"

text \<open>Step 9: the call of \<open>create_order\<close> and the test of its result.\<close>

definition main_submit :: "json \<Rightarrow> json \<Rightarrow> json \<Rightarrow> json \<Rightarrow> json \<Rightarrow> order_details \<Rightarrow> outcome step" where
  "main_submit token organization_id terminal_group_id table_id payment_type_id d =
     (\<lambda>w. case create_order token organization_id terminal_group_id table_id
                  (customer_name d) (customer_phone d) (product_id d) (product_price d)
                  (product_quantity d) payment_type_id (payment_sum d) w of
             (result, w') \<Rightarrow>
               (if truthy result then (Inr (OrderCreated result), w')
                else (Inr (OrderNotCreated result), w')))"

text \<open>Steps 6 to 9 together: from the first prompt about the customer to the end.\<close>

definition main_order :: "json \<Rightarrow> json \<Rightarrow> json \<Rightarrow> json \<Rightarrow> json \<Rightarrow> outcome step" where
  "main_order token organization_id terminal_group_id table_id payment_type_id =
     bindS main_details (\<lambda>d.
       main_submit token organization_id terminal_group_id table_id payment_type_id d)"

definition main_steps :: "outcome step" where
  "main_steps =
     bindS main_token (\<lambda>token.
     bindS (main_organization token) (\<lambda>organization_id.
     bindS (main_terminal_group token organization_id) (\<lambda>terminal_group_id.
     bindS (main_table token terminal_group_id) (\<lambda>table_id.
     bindS (main_payment_type token organization_id) (\<lambda>payment_type_id.
       main_order token organization_id terminal_group_id table_id payment_type_id)))))"

definition main :: "world \<Rightarrow> outcome \<times> world" where
  "main w = (case main_steps w of (Inl out, w') \<Rightarrow> (out, w') | (Inr out, w') \<Rightarrow> (out, w'))"

section \<open>Reading an order document\<close>

text \<open>\<open>payload["order"][k]\<close>, and the keys of \<open>payload["order"]\<close>.\<close>

definition order_field :: "string \<Rightarrow> json \<Rightarrow> json option" where
  "order_field k payload =
     (case payload of
        JObj kvs \<Rightarrow>
          (case map_of kvs ''order'' of
             Some (JObj order_kvs) \<Rightarrow> map_of order_kvs k
           | _ \<Rightarrow> None)
      | _ \<Rightarrow> None)"

section \<open>A service for the examples\<close>

text \<open>
  One organization, an active and a sleeping terminal group, one section with one table,
  and one payment type, of kind Card. The first two arguments are the replies to the
  token request and to the order, so that an example can change them.
\<close>

definition example_service ::
  "http_reply \<Rightarrow> http_reply \<Rightarrow> http_request list \<Rightarrow> http_request \<Rightarrow> http_reply" where
  "example_service token_reply order_reply past rq =
     (if req_url rq = access_token_url then token_reply
      else if req_url rq = organizations_url then
        Reply 200 (Some (JObj [(''organizations'',
          JArr [JObj [(''id'', JStr ''org1''), (''name'', JStr ''Bistro'')]])]))
      else if req_url rq = terminal_groups_url then
        Reply 200 (Some (JObj [
          (''terminalGroups'',
             JArr [JObj [(''organizationId'', JStr ''org1''),
                         (''items'', JArr [JObj [(''id'', JStr ''A''), (''name'', JStr ''Front'')]])]]),
          (''terminalGroupsInSleep'',
             JArr [JObj [(''organizationId'', JStr ''org1''),
                         (''items'', JArr [JObj [(''id'', JStr ''B'')]])]])]))
      else if req_url rq = sections_url then
        Reply 200 (Some (JObj [(''restaurantSections'',
          JArr [JObj [(''name'', JStr ''Hall''),
                      (''tables'', JArr [JObj [(''id'', JStr ''t1''), (''name'', JStr ''T1'')]])]])]))
      else if req_url rq = payment_types_url then
        Reply 200 (Some (JObj [(''paymentTypes'',
          JArr [JObj [(''id'', JStr ''pt1''), (''name'', JStr ''Visa''),
                      (''paymentTypeKind'', JStr ''Card'')]])]))
      else if req_url rq = order_create_url then order_reply
      else Reply 404 None)"

definition token_ok :: http_reply where
  "token_ok = Reply 200 (Some (JObj [(''token'', JStr ''tok'')]))"

definition order_ok :: http_reply where
  "order_ok = Reply 200 (Some (JObj [(''orderInfo'', JObj [(''id'', JStr ''o1'')])]))"

definition example_world :: "http_reply \<Rightarrow> http_reply \<Rightarrow> string list \<Rightarrow> world" where
  "example_world token_reply order_reply typed =
     \<lparr>server = example_service token_reply order_reply, sent = [], stdin = typed,
      uuid_source = (\<lambda>n. if n = 0 then ''u0'' else ''u1''), uuid_count = 0,
      API_LOGIN = JStr ''login''\<rparr>"

text \<open>A service that gives the same reply to every request.\<close>

definition fixed_reply_world :: "http_reply \<Rightarrow> world" where
  "fixed_reply_world r =
     \<lparr>server = (\<lambda>past rq. r), sent = [], stdin = [],
      uuid_source = (\<lambda>n. if n = 0 then ''u0'' else ''u1''), uuid_count = 0,
      API_LOGIN = JStr ''login''\<rparr>"

text \<open>
  A service whose terminal groups belong to an organization nobody asked for, and one with
  one active group A and one sleeping group B.
\<close>

definition other_org_world :: world where
  "other_org_world =
     fixed_reply_world (Reply 200 (Some (JObj [(''terminalGroups'',
       JArr [JObj [(''organizationId'', JStr ''other''),
                   (''items'', JArr [JObj [(''id'', JStr ''X'')]])]])])))"

definition two_groups_world :: world where
  "two_groups_world =
     fixed_reply_world (Reply 200 (Some (JObj [
       (''terminalGroups'',
          JArr [JObj [(''organizationId'', JStr ''org1''),
                      (''items'', JArr [JObj [(''id'', JStr ''A'')]])]]),
       (''terminalGroupsInSleep'',
          JArr [JObj [(''organizationId'', JStr ''org1''),
                      (''items'', JArr [JObj [(''id'', JStr ''B'')]])]])])))"

section \<open>Basic facts\<close>

lemmas url_defs = access_token_url_def organizations_url_def terminal_groups_url_def
  sections_url_def payment_types_url_def order_create_url_def

lemmas example_defs = example_world_def example_service_def token_ok_def order_ok_def

lemma response_data_failure:
  "r = NoReply \<or> (\<exists>st body. r = Reply st body \<and> (400 \<le> st \<and> st < 600 \<or> body = None))
     \<Longrightarrow> \<exists>e. response_data r = Inl e"
  by (auto simp: response_data_def raise_for_status_def response_json_def bindE_def)

lemma response_data_ok:
  "\<not> (400 \<le> st \<and> st < 600) \<Longrightarrow> response_data (Reply st (Some data)) = Inr data"
  by (simp add: response_data_def raise_for_status_def response_json_def bindE_def)

lemma create_order_sent:
  "sent (snd (create_order token org tg tbl name phone product price quantity pt amount_due w))
     = sent w @
       [order_create_request token
          (order_payload org tg tbl name phone product price quantity pt amount_due
             (uuid_source w (uuid_count w)) (uuid_source w (Suc (uuid_count w))))]"
  by (simp add: create_order_def uuid4_def requests_send_def split: prod.splits sum.splits)


lemma get_access_token_sent:
  "snd (get_access_token api_login w) = w\<lparr>sent := sent w @ [access_token_request api_login]\<rparr>"
  by (simp add: get_access_token_def requests_send_def split: prod.splits sum.splits)

lemma get_access_token_fst:
  "fst (get_access_token api_login w)
     = (case access_token_try (server w (sent w) (access_token_request api_login)) of
          Inr token \<Rightarrow> token | Inl err \<Rightarrow> JNull)"
  by (simp add: get_access_token_def requests_send_def split: prod.splits sum.splits)

lemma bindS_Inl: "m w = (Inl out, w') \<Longrightarrow> bindS m f w = (Inl out, w')"
  by (simp add: bindS_def)


lemma main_of_steps:
  "main_steps w = (Inl out, w') \<or> main_steps w = (Inr out, w') \<Longrightarrow> main w = (out, w')"
  by (auto simp: main_def)

lemma main_stops_at_token:
  "main_token w = (Inl out, w1) \<Longrightarrow> main w = (out, w1)"
  by (simp add: main_of_steps main_steps_def bindS_Inl)





lemma main_token_eq:
  "main_token w =
     (if truthy (fst (get_access_token (API_LOGIN w) w))
      then Inr (fst (get_access_token (API_LOGIN w) w)) else Inl NoAccessToken,
      w\<lparr>sent := sent w @ [access_token_request (API_LOGIN w)]\<rparr>)"
  by (simp add: main_token_def get_access_token_sent [symmetric] split: prod.splits)

lemma access_token_try_failure:
  assumes "r = NoReply
           \<or> (\<exists>st body. r = Reply st body \<and> (400 \<le> st \<and> st < 600 \<or> body = None))
           \<or> (\<exists>st kvs. r = Reply st (Some (JObj kvs)) \<and> map_of kvs ''token'' = None)"
  shows "(case access_token_try r of Inr token \<Rightarrow> token | Inl err \<Rightarrow> JNull) = JNull"
  using assms
  by (auto simp: access_token_try_def response_data_def raise_for_status_def response_json_def
        bindE_def split: if_splits)

lemma sections_fst:
  "fst (get_available_restaurant_sections token ids w)
     = (case sections_try (server w (sent w) (sections_request token ids)) of
          Inr v \<Rightarrow> v | Inl err \<Rightarrow> JArr [])"
  by (simp add: get_available_restaurant_sections_def requests_send_def
        split: prod.splits sum.splits)

lemma payment_types_fst:
  "fst (get_payment_types token ids w)
     = (case payment_types_try (server w (sent w) (payment_types_request token ids)) of
          Inr v \<Rightarrow> v | Inl err \<Rightarrow> JArr [])"
  by (simp add: get_payment_types_def requests_send_def split: prod.splits sum.splits)

lemma sections_try_failure:
  "response_data r = Inl e \<Longrightarrow> sections_try r = Inl e"
  by (simp add: sections_try_def bindE_def)

lemma payment_types_try_failure:
  "response_data r = Inl e \<Longrightarrow> payment_types_try r = Inl e"
  by (simp add: payment_types_try_def bindE_def)

lemma get_terminal_groups_fst:
  "fst (get_terminal_groups token ids w)
     = (case terminal_groups_try (server w (sent w) (terminal_groups_request token ids)) of
          Inr gs \<Rightarrow> JArr gs | Inl err \<Rightarrow> JArr [])"
  by (simp add: get_terminal_groups_def requests_send_def split: prod.splits sum.splits)

lemma get_terminal_groups_sent:
  "snd (get_terminal_groups token ids w)
     = w\<lparr>sent := sent w @ [terminal_groups_request token ids]\<rparr>"
  by (simp add: get_terminal_groups_def requests_send_def split: prod.splits sum.splits)

lemma bindE_Inr_iff:
  "bindE m f = Inr y \<longleftrightarrow> (\<exists>a. m = Inr a \<and> f a = Inr y)"
  by (cases m) (simp_all add: bindE_def)

lemma mapE_Inr_member:
  "mapE f xs = Inr ys \<Longrightarrow> y \<in> set ys \<Longrightarrow> \<exists>x\<in>set xs. f x = Inr y"
proof (induction xs arbitrary: ys)
  case Nil
  then show ?case by simp
next
  case (Cons x xs)
  from Cons.prems(1) obtain z zs where z: "f x = Inr z" and zs: "mapE f xs = Inr zs"
    and ys: "ys = z # zs"
    by (auto simp: bindE_Inr_iff)
  show ?case
  proof (cases "y = z")
    case True
    with z show ?thesis by auto
  next
    case False
    with Cons.prems(2) ys have "y \<in> set zs" by simp
    with Cons.IH [OF zs] show ?thesis by auto
  qed
qed

lemma mapE_append:
  "mapE f xs = Inr as \<Longrightarrow> mapE f ys = Inr bs \<Longrightarrow> mapE f (xs @ ys) = Inr (as @ bs)"
  by (induction xs arbitrary: as) (auto simp: bindE_Inr_iff)

lemma item_group_organization:
  "item_group org item = Inr gs \<Longrightarrow> g \<in> set gs \<Longrightarrow> dict_get g ''organizationId'' JNull = Inr org"
  by (auto simp: item_group_def bindE_Inr_iff split: if_splits)

lemma block_groups_organization:
  assumes "block_groups blk = Inr gs" and "g \<in> set gs"
  shows "dict_get g ''organizationId'' JNull = dict_get blk ''organizationId'' JNull"
proof -
  from assms(1) obtain items org its gss where
    org: "dict_get blk ''organizationId'' JNull = Inr org"
    and m: "mapE (item_group org) its = Inr gss" and gs: "gs = concat gss"
    by (auto simp: block_groups_def bindE_Inr_iff)
  from assms(2) gs obtain gl where "gl \<in> set gss" and "g \<in> set gl" by auto
  with mapE_Inr_member [OF m] obtain item where "item_group org item = Inr gl" by blast
  with \<open>g \<in> set gl\<close> org show ?thesis by (simp add: item_group_organization)
qed

lemma terminal_groups_try_merge:
  assumes "\<not> (400 \<le> st \<and> st < 600)"
      and "dict_get data ''terminalGroups'' (JArr []) = Inr (JArr active)"
      and "dict_get data ''terminalGroupsInSleep'' (JArr []) = Inr (JArr asleep)"
      and "mapE block_groups active = Inr ga"
      and "mapE block_groups asleep = Inr gb"
  shows "terminal_groups_try (Reply st (Some data)) = Inr (concat ga @ concat gb)"
  using assms mapE_append [OF assms(4) assms(5)]
  by (simp add: terminal_groups_try_def terminal_groups_data_def response_data_ok bindE_def)

lemma item_group_without_id:
  "map_of ikvs ''id'' = None \<Longrightarrow> item_group org (JObj ikvs) = Inr []"
  by (simp add: item_group_def bindE_def)

lemma item_group_with_id:
  "map_of ikvs ''id'' = Some i \<Longrightarrow> truthy i \<Longrightarrow>
     item_group org (JObj ikvs)
       = Inr [JObj [(''id'', i),
                    (''name'', case map_of ikvs ''name'' of None \<Rightarrow> JStr ''NoName'' | Some n \<Rightarrow> n),
                    (''organizationId'', org)]]"
  by (simp add: item_group_def bindE_def)

lemma block_groups_single:
  "truthy i \<Longrightarrow>
   block_groups (JObj [(''organizationId'', org), (''items'', JArr [JObj [(''id'', i)]])])
     = Inr [JObj [(''id'', i), (''name'', JStr ''NoName''), (''organizationId'', org)]]"
  by (simp add: block_groups_def item_group_def bindE_def)
























lemma mapE_total:
  "(\<forall>x\<in>set xs. \<exists>y. f x = Inr y) \<Longrightarrow> \<exists>ys. mapE f xs = Inr ys"
  by (induction xs) (auto simp: bindE_def)

lemma block_groups_total:
  assumes "dict_get blk ''items'' (JArr []) = Inr (JArr items)"
      and "\<forall>item\<in>set items. \<exists>ikvs. item = JObj ikvs"
  shows "\<exists>gs. block_groups blk = Inr gs"
proof -
  from assms(1) obtain kvs where blk: "blk = JObj kvs"
    by (cases blk) auto
  then obtain org where org: "dict_get blk ''organizationId'' JNull = Inr org"
    by simp
  have "\<forall>item\<in>set items. \<exists>gs. item_group org item = Inr gs"
    using assms(2) by (auto simp: item_group_def bindE_def)
  then obtain gss where "mapE (item_group org) items = Inr gss"
    using mapE_total by blast
  then show ?thesis
    using assms(1) org by (simp add: block_groups_def bindE_def)
qed

lemma terminal_groups_try_well_formed:
  assumes "\<not> (400 \<le> st \<and> st < 600)"
      and "dict_get data ''terminalGroups'' (JArr []) = Inr (JArr active)"
      and "dict_get data ''terminalGroupsInSleep'' (JArr []) = Inr (JArr asleep)"
      and "\<forall>blk\<in>set (active @ asleep). \<exists>items.
             dict_get blk ''items'' (JArr []) = Inr (JArr items)
             \<and> (\<forall>item\<in>set items. \<exists>ikvs. item = JObj ikvs)"
  shows "\<exists>ga gb. mapE block_groups active = Inr ga \<and> mapE block_groups asleep = Inr gb
           \<and> terminal_groups_try (Reply st (Some data)) = Inr (concat ga @ concat gb)"
proof -
  have "\<forall>blk\<in>set active. \<exists>gs. block_groups blk = Inr gs"
    using assms(4) block_groups_total by fastforce
  then obtain ga where ga: "mapE block_groups active = Inr ga"
    using mapE_total by blast
  have "\<forall>blk\<in>set asleep. \<exists>gs. block_groups blk = Inr gs"
    using assms(4) block_groups_total by fastforce
  then obtain gb where gb: "mapE block_groups asleep = Inr gb"
    using mapE_total by blast
  show ?thesis
    using terminal_groups_try_merge [OF assms(1-3) ga gb] ga gb by blast
qed

section \<open>Price and quantity\<close>




section \<open>The organization of a terminal group\<close>

text \<open>
  C2, as the code has it. \<open>get_terminal_groups\<close> sends the identifiers \<open>S\<close> to the
  service and does not compare the reply with them: every group it returns carries the
  organizationId of the block of the reply it was listed in. So the groups returned lie
  within \<open>S\<close> whenever the blocks of the reply do.
\<close>

theorem get_terminal_groups_organization:
  assumes "fst (get_terminal_groups token (JArr S) w) = JArr gs" and "g \<in> set gs"
  shows "\<exists>blocks.
           terminal_groups_data (server w (sent w) (terminal_groups_request token (JArr S)))
             = Inr blocks
         \<and> (\<exists>blk\<in>set blocks.
               dict_get g ''organizationId'' JNull = dict_get blk ''organizationId'' JNull)
         \<and> ((\<forall>blk\<in>set blocks. \<exists>org\<in>set S. dict_get blk ''organizationId'' JNull = Inr org)
              \<longrightarrow> (\<exists>org\<in>set S. dict_get g ''organizationId'' JNull = Inr org))"
proof -
  let ?r = "server w (sent w) (terminal_groups_request token (JArr S))"
  from assms have "\<exists>gs'. terminal_groups_try ?r = Inr gs' \<and> g \<in> set gs'"
    by (auto simp: get_terminal_groups_fst split: sum.splits)
  then obtain blocks gss where b: "terminal_groups_data ?r = Inr blocks"
    and m: "mapE block_groups blocks = Inr gss" and g: "g \<in> set (concat gss)"
    by (auto simp: terminal_groups_try_def bindE_Inr_iff)
  from g obtain gl where "gl \<in> set gss" and gl: "g \<in> set gl" by auto
  with mapE_Inr_member [OF m] obtain blk where blk: "blk \<in> set blocks"
    and bg: "block_groups blk = Inr gl" by blast
  have eq: "dict_get g ''organizationId'' JNull = dict_get blk ''organizationId'' JNull"
    using block_groups_organization [OF bg gl] .
  show ?thesis
    using b blk eq by (intro exI [of _ blocks]) auto
qed

text \<open>At the example service, asked for org1, the sleeping group B is of org1.\<close>

theorem get_terminal_groups_organization_witness:
  "fst (get_terminal_groups (JStr ''tok'') (JArr [JStr ''org1''])
          (example_world token_ok order_ok []))
     = JArr [JObj [(''id'', JStr ''A''), (''name'', JStr ''Front''),
                   (''organizationId'', JStr ''org1'')],
             JObj [(''id'', JStr ''B''), (''name'', JStr ''NoName''),
                   (''organizationId'', JStr ''org1'')]]
   \<and> (\<exists>org\<in>set [JStr ''org1''].
         dict_get (JObj [(''id'', JStr ''B''), (''name'', JStr ''NoName''),
                         (''organizationId'', JStr ''org1'')]) ''organizationId'' JNull
           = Inr org)"
proof -
  let ?w = "example_world token_ok order_ok []"
  let ?gA = "JObj [(''id'', JStr ''A''), (''name'', JStr ''Front''),
                   (''organizationId'', JStr ''org1'')]"
  let ?gB = "JObj [(''id'', JStr ''B''), (''name'', JStr ''NoName''),
                   (''organizationId'', JStr ''org1'')]"
  have res: "fst (get_terminal_groups (JStr ''tok'') (JArr [JStr ''org1'']) ?w) = JArr [?gA, ?gB]"
    by code_simp
  have mem: "?gB \<in> set [?gA, ?gB]" by simp
  have data: "terminal_groups_data
          (server ?w (sent ?w) (terminal_groups_request (JStr ''tok'') (JArr [JStr ''org1''])))
        = Inr [JObj [(''organizationId'', JStr ''org1''),
                     (''items'', JArr [JObj [(''id'', JStr ''A''), (''name'', JStr ''Front'')]])],
               JObj [(''organizationId'', JStr ''org1''),
                     (''items'', JArr [JObj [(''id'', JStr ''B'')]])]]"
    by code_simp
  from get_terminal_groups_organization [OF res mem] data
  have "\<exists>org\<in>set [JStr ''org1'']. dict_get ?gB ''organizationId'' JNull = Inr org"
    by simp
  with res show ?thesis by simp
qed

text \<open>
  C2 as stated fails for a service that answers with a block of another organization: the
  group is returned, with the organizationId that is not in \<open>S\<close>.
\<close>

theorem get_terminal_groups_other_organization_counterexample:
  "fst (get_terminal_groups (JStr ''tok'') (JArr [JStr ''org1'']) other_org_world)
     = JArr [JObj [(''id'', JStr ''X''), (''name'', JStr ''NoName''),
                   (''organizationId'', JStr ''other'')]]
   \<and> JStr ''other'' \<notin> set [JStr ''org1'']"
  by code_simp

section \<open>Empty results and failed lookups\<close>

text \<open>
  C3, as the code has it. \<open>get_available_restaurant_sections\<close> and
  \<open>get_payment_types\<close> return the empty list when the service reports no sections or
  no payment types, and they return the same empty list when the request gets no reply, a
  4xx or 5xx status code, or a body that is not JSON: the failure is logged and printed,
  no exception leaves the function, and the value returned does not tell the two apart.
\<close>

theorem lookups_return_empty_list:
  assumes "server w (sent w) (sections_request token ids) = r"
      and "server w (sent w) (payment_types_request token ids) = r'"
  shows "((\<exists>st kvs. r = Reply st (Some (JObj kvs)) \<and> \<not> (400 \<le> st \<and> st < 600)
                   \<and> map_of kvs ''restaurantSections'' = Some (JArr [])) \<longrightarrow>
            fst (get_available_restaurant_sections token ids w) = JArr [])
       \<and> (r = NoReply \<or> (\<exists>st body. r = Reply st body \<and> (400 \<le> st \<and> st < 600 \<or> body = None)) \<longrightarrow>
            fst (get_available_restaurant_sections token ids w) = JArr [])
       \<and> ((\<exists>st kvs. r' = Reply st (Some (JObj kvs)) \<and> \<not> (400 \<le> st \<and> st < 600)
                   \<and> map_of kvs ''paymentTypes'' = Some (JArr [])) \<longrightarrow>
            fst (get_payment_types token ids w) = JArr [])
       \<and> (r' = NoReply \<or> (\<exists>st body. r' = Reply st body \<and> (400 \<le> st \<and> st < 600 \<or> body = None)) \<longrightarrow>
            fst (get_payment_types token ids w) = JArr [])"
proof (intro conjI impI)
  assume "\<exists>st kvs. r = Reply st (Some (JObj kvs)) \<and> \<not> (400 \<le> st \<and> st < 600)
                   \<and> map_of kvs ''restaurantSections'' = Some (JArr [])"
  then show "fst (get_available_restaurant_sections token ids w) = JArr []"
    using assms(1) by (auto simp: sections_fst sections_try_def response_data_ok bindE_def)
next
  assume "r = NoReply \<or> (\<exists>st body. r = Reply st body \<and> (400 \<le> st \<and> st < 600 \<or> body = None))"
  then obtain e where "response_data r = Inl e"
    using response_data_failure by blast
  then show "fst (get_available_restaurant_sections token ids w) = JArr []"
    using assms(1) by (simp add: sections_fst sections_try_failure)
next
  assume "\<exists>st kvs. r' = Reply st (Some (JObj kvs)) \<and> \<not> (400 \<le> st \<and> st < 600)
                   \<and> map_of kvs ''paymentTypes'' = Some (JArr [])"
  then show "fst (get_payment_types token ids w) = JArr []"
    using assms(2) by (auto simp: payment_types_fst payment_types_try_def response_data_ok bindE_def)
next
  assume "r' = NoReply \<or> (\<exists>st body. r' = Reply st body \<and> (400 \<le> st \<and> st < 600 \<or> body = None))"
  then obtain e where "response_data r' = Inl e"
    using response_data_failure by blast
  then show "fst (get_payment_types token ids w) = JArr []"
    using assms(2) by (simp add: payment_types_fst payment_types_try_failure)
qed

text \<open>An empty result and a failure, for each of the two lookups.\<close>

theorem lookups_return_empty_list_witness:
  "fst (get_available_restaurant_sections (JStr ''tok'') (JArr [JStr ''A''])
          (fixed_reply_world (Reply 200 (Some (JObj [(''restaurantSections'', JArr [])])))))
     = JArr []
   \<and> fst (get_available_restaurant_sections (JStr ''tok'') (JArr [JStr ''A''])
          (fixed_reply_world (Reply 500 None))) = JArr []
   \<and> fst (get_payment_types (JStr ''tok'') (JArr [JStr ''org1''])
          (fixed_reply_world (Reply 200 (Some (JObj [(''paymentTypes'', JArr [])])))))
     = JArr []
   \<and> fst (get_payment_types (JStr ''tok'') (JArr [JStr ''org1''])
          (fixed_reply_world NoReply)) = JArr []"
  using lookups_return_empty_list [OF refl refl,
          of "fixed_reply_world (Reply 200 (Some (JObj [(''restaurantSections'', JArr [])])))"
             "JStr ''tok''" "JArr [JStr ''A'']"]
        lookups_return_empty_list [OF refl refl,
          of "fixed_reply_world (Reply 500 None)" "JStr ''tok''" "JArr [JStr ''A'']"]
        lookups_return_empty_list [OF refl refl,
          of "fixed_reply_world (Reply 200 (Some (JObj [(''paymentTypes'', JArr [])])))"
             "JStr ''tok''" "JArr [JStr ''org1'']"]
        lookups_return_empty_list [OF refl refl,
          of "fixed_reply_world NoReply" "JStr ''tok''" "JArr [JStr ''org1'']"]
  by (simp add: fixed_reply_world_def)

text \<open>
  C3 as stated fails: a reply 500, and a reply 200 whose body is not JSON, give the value
  that the empty result gives, the empty list, and no error outcome.
\<close>

theorem lookup_failure_is_empty_list_counterexample:
  "fst (get_available_restaurant_sections (JStr ''tok'') (JArr [JStr ''A''])
          (fixed_reply_world (Reply 500 None)))
     = fst (get_available_restaurant_sections (JStr ''tok'') (JArr [JStr ''A''])
          (fixed_reply_world (Reply 200 (Some (JObj [(''restaurantSections'', JArr [])])))))
   \<and> fst (get_available_restaurant_sections (JStr ''tok'') (JArr [JStr ''A''])
          (fixed_reply_world (Reply 500 None))) = JArr []
   \<and> fst (get_payment_types (JStr ''tok'') (JArr [JStr ''org1''])
          (fixed_reply_world (Reply 200 None)))
     = fst (get_payment_types (JStr ''tok'') (JArr [JStr ''org1''])
          (fixed_reply_world (Reply 200 (Some (JObj [(''paymentTypes'', JArr [])])))))
   \<and> fst (get_payment_types (JStr ''tok'') (JArr [JStr ''org1''])
          (fixed_reply_world (Reply 200 None))) = JArr []"
  by code_simp

section \<open>Merging active and sleeping terminal groups\<close>

text \<open>
  C4. For a reply whose status code is no error code and whose body is JSON, with lists
  under terminalGroups and terminalGroupsInSleep (a missing field counts as the empty
  list) whose blocks are objects holding lists of objects as items:
  \<open>get_terminal_groups\<close> returns the groups of the blocks under terminalGroups, in
  their order, followed by those of the blocks under terminalGroupsInSleep, in one flat
  list; every group carries the organizationId of its block; an item without the key id
  adds nothing, and an item with an id adds the record of id, name and organizationId;
  and when the reply holds one active group with id \<open>a\<close> and one sleeping group with id
  \<open>b\<close>, the result is the group \<open>a\<close> followed by the group \<open>b\<close>, whatever the two
  ids are. The records returned hold id, name and organizationId only, so nothing in them
  tells which field a group came from.
\<close>

theorem get_terminal_groups_merge:
  assumes "server w (sent w) (terminal_groups_request token ids) = Reply st (Some data)"
      and "\<not> (400 \<le> st \<and> st < 600)"
  shows "(\<forall>active asleep.
            dict_get data ''terminalGroups'' (JArr []) = Inr (JArr active)
            \<and> dict_get data ''terminalGroupsInSleep'' (JArr []) = Inr (JArr asleep)
            \<and> (\<forall>blk\<in>set (active @ asleep). \<exists>items.
                  dict_get blk ''items'' (JArr []) = Inr (JArr items)
                  \<and> (\<forall>item\<in>set items. \<exists>ikvs. item = JObj ikvs))
            \<longrightarrow> (\<exists>ga gb. mapE block_groups active = Inr ga
                         \<and> mapE block_groups asleep = Inr gb
                         \<and> fst (get_terminal_groups token ids w) = JArr (concat ga @ concat gb)))
       \<and> (\<forall>blk gs g. block_groups blk = Inr gs \<and> g \<in> set gs \<longrightarrow>
            dict_get g ''organizationId'' JNull = dict_get blk ''organizationId'' JNull)
       \<and> (\<forall>org ikvs. map_of ikvs ''id'' = None \<longrightarrow> item_group org (JObj ikvs) = Inr [])
       \<and> (\<forall>org ikvs i. map_of ikvs ''id'' = Some i \<and> truthy i \<longrightarrow>
            item_group org (JObj ikvs)
              = Inr [JObj [(''id'', i),
                           (''name'', case map_of ikvs ''name'' of
                                        None \<Rightarrow> JStr ''NoName'' | Some n \<Rightarrow> n),
                           (''organizationId'', org)]])
       \<and> (\<forall>a b org_a org_b.
            truthy a \<and> truthy b
            \<and> data = JObj [(''terminalGroups'',
                              JArr [JObj [(''organizationId'', org_a),
                                          (''items'', JArr [JObj [(''id'', a)]])]]),
                           (''terminalGroupsInSleep'',
                              JArr [JObj [(''organizationId'', org_b),
                                          (''items'', JArr [JObj [(''id'', b)]])]])]
            \<longrightarrow> fst (get_terminal_groups token ids w)
                  = JArr [JObj [(''id'', a), (''name'', JStr ''NoName''),
                                (''organizationId'', org_a)],
                          JObj [(''id'', b), (''name'', JStr ''NoName''),
                                (''organizationId'', org_b)]])"
proof (intro conjI allI impI)
  fix active asleep
  assume h: "dict_get data ''terminalGroups'' (JArr []) = Inr (JArr active)
            \<and> dict_get data ''terminalGroupsInSleep'' (JArr []) = Inr (JArr asleep)
            \<and> (\<forall>blk\<in>set (active @ asleep). \<exists>items.
                  dict_get blk ''items'' (JArr []) = Inr (JArr items)
                  \<and> (\<forall>item\<in>set items. \<exists>ikvs. item = JObj ikvs))"
  from h have a: "dict_get data ''terminalGroups'' (JArr []) = Inr (JArr active)"
    and b: "dict_get data ''terminalGroupsInSleep'' (JArr []) = Inr (JArr asleep)"
    and c: "\<forall>blk\<in>set (active @ asleep). \<exists>items.
                  dict_get blk ''items'' (JArr []) = Inr (JArr items)
                  \<and> (\<forall>item\<in>set items. \<exists>ikvs. item = JObj ikvs)"
    by blast+
  from terminal_groups_try_well_formed [OF assms(2) a b c]
  show "\<exists>ga gb. mapE block_groups active = Inr ga
                         \<and> mapE block_groups asleep = Inr gb
                         \<and> fst (get_terminal_groups token ids w) = JArr (concat ga @ concat gb)"
    using assms(1) by (auto simp: get_terminal_groups_fst)
next
  fix blk gs g
  assume "block_groups blk = Inr gs \<and> g \<in> set gs"
  then show "dict_get g ''organizationId'' JNull = dict_get blk ''organizationId'' JNull"
    using block_groups_organization by blast
next
  fix org and ikvs :: "(string \<times> json) list"
  assume "map_of ikvs ''id'' = None"
  then show "item_group org (JObj ikvs) = Inr []"
    by (rule item_group_without_id)
next
  fix org i and ikvs :: "(string \<times> json) list"
  assume "map_of ikvs ''id'' = Some i \<and> truthy i"
  then show "item_group org (JObj ikvs)
              = Inr [JObj [(''id'', i),
                           (''name'', case map_of ikvs ''name'' of
                                        None \<Rightarrow> JStr ''NoName'' | Some n \<Rightarrow> n),
                           (''organizationId'', org)]]"
    by (simp add: item_group_with_id)
next
  fix a b org_a org_b
  assume h: "truthy a \<and> truthy b
            \<and> data = JObj [(''terminalGroups'',
                              JArr [JObj [(''organizationId'', org_a),
                                          (''items'', JArr [JObj [(''id'', a)]])]]),
                           (''terminalGroupsInSleep'',
                              JArr [JObj [(''organizationId'', org_b),
                                          (''items'', JArr [JObj [(''id'', b)]])]])]"
  have "terminal_groups_try (Reply st (Some data))
          = Inr (concat [[JObj [(''id'', a), (''name'', JStr ''NoName''),
                                (''organizationId'', org_a)]]]
                 @ concat [[JObj [(''id'', b), (''name'', JStr ''NoName''),
                                (''organizationId'', org_b)]]])"
  proof (rule terminal_groups_try_merge [OF assms(2)])
    show "dict_get data ''terminalGroups'' (JArr [])
            = Inr (JArr [JObj [(''organizationId'', org_a),
                               (''items'', JArr [JObj [(''id'', a)]])]])"
      using h by simp
    show "dict_get data ''terminalGroupsInSleep'' (JArr [])
            = Inr (JArr [JObj [(''organizationId'', org_b),
                               (''items'', JArr [JObj [(''id'', b)]])]])"
      using h by simp
    show "mapE block_groups [JObj [(''organizationId'', org_a),
                                   (''items'', JArr [JObj [(''id'', a)]])]]
            = Inr [[JObj [(''id'', a), (''name'', JStr ''NoName''),
                          (''organizationId'', org_a)]]]"
      using h by (simp add: block_groups_single bindE_def)
    show "mapE block_groups [JObj [(''organizationId'', org_b),
                                   (''items'', JArr [JObj [(''id'', b)]])]]
            = Inr [[JObj [(''id'', b), (''name'', JStr ''NoName''),
                          (''organizationId'', org_b)]]]"
      using h by (simp add: block_groups_single bindE_def)
  qed
  then show "fst (get_terminal_groups token ids w)
                  = JArr [JObj [(''id'', a), (''name'', JStr ''NoName''),
                                (''organizationId'', org_a)],
                          JObj [(''id'', b), (''name'', JStr ''NoName''),
                                (''organizationId'', org_b)]]"
    using assms(1) by (simp add: get_terminal_groups_fst)
qed

text \<open>The reply with the active group A and the sleeping group B.\<close>

theorem get_terminal_groups_merge_witness:
  "fst (get_terminal_groups (JStr ''tok'') (JArr [JStr ''org1'']) two_groups_world)
     = JArr [JObj [(''id'', JStr ''A''), (''name'', JStr ''NoName''),
                   (''organizationId'', JStr ''org1'')],
             JObj [(''id'', JStr ''B''), (''name'', JStr ''NoName''),
                   (''organizationId'', JStr ''org1'')]]
   \<and> item_group (JStr ''org1'') (JObj [(''name'', JStr ''Nameless'')]) = Inr []
   \<and> (\<exists>ga gb.
         mapE block_groups [JObj [(''organizationId'', JStr ''org1''),
                                  (''items'', JArr [JObj [(''id'', JStr ''A'')]])]] = Inr ga
       \<and> mapE block_groups [JObj [(''organizationId'', JStr ''org1''),
                                  (''items'', JArr [JObj [(''id'', JStr ''B'')]])]] = Inr gb
       \<and> fst (get_terminal_groups (JStr ''tok'') (JArr [JStr ''org1'']) two_groups_world)
           = JArr (concat ga @ concat gb))"
proof -
  have reply: "server two_groups_world (sent two_groups_world)
                 (terminal_groups_request (JStr ''tok'') (JArr [JStr ''org1'']))
        = Reply 200 (Some (JObj [
       (''terminalGroups'',
          JArr [JObj [(''organizationId'', JStr ''org1''),
                      (''items'', JArr [JObj [(''id'', JStr ''A'')]])]]),
       (''terminalGroupsInSleep'',
          JArr [JObj [(''organizationId'', JStr ''org1''),
                      (''items'', JArr [JObj [(''id'', JStr ''B'')]])]])]))"
    by (simp add: two_groups_world_def fixed_reply_world_def)
  have ok: "\<not> (400 \<le> (200::int) \<and> (200::int) < 600)" by simp
  note inst = get_terminal_groups_merge [OF reply ok]
  have first: "fst (get_terminal_groups (JStr ''tok'') (JArr [JStr ''org1'']) two_groups_world)
     = JArr [JObj [(''id'', JStr ''A''), (''name'', JStr ''NoName''),
                   (''organizationId'', JStr ''org1'')],
             JObj [(''id'', JStr ''B''), (''name'', JStr ''NoName''),
                   (''organizationId'', JStr ''org1'')]]"
    using inst by simp
  have second: "item_group (JStr ''org1'') (JObj [(''name'', JStr ''Nameless'')]) = Inr []"
    using inst by simp
  have third: "\<exists>ga gb.
         mapE block_groups [JObj [(''organizationId'', JStr ''org1''),
                                  (''items'', JArr [JObj [(''id'', JStr ''A'')]])]] = Inr ga
       \<and> mapE block_groups [JObj [(''organizationId'', JStr ''org1''),
                                  (''items'', JArr [JObj [(''id'', JStr ''B'')]])]] = Inr gb
       \<and> fst (get_terminal_groups (JStr ''tok'') (JArr [JStr ''org1'']) two_groups_world)
           = JArr (concat ga @ concat gb)"
    by (rule inst [THEN conjunct1, rule_format]) simp
  from first second third show ?thesis by blast
qed

section \<open>Authentication failure\<close>

text \<open>
  C6, as the code has it. When the token request gets no reply, a reply with a 4xx or 5xx
  status code, a body that is not JSON, or a JSON object without the field token,
  \<open>get_access_token\<close> returns None and \<open>main\<close> returns at once: the world it
  leaves differs from the one it found by the token request alone, so no further request
  was sent, no line was read and no identifier was drawn. (The status codes that make
  \<open>raise_for_status\<close> raise are 400 to 599, not every code outside 200 to 299.)
\<close>

theorem get_access_token_failure:
  assumes "server w (sent w) (access_token_request (API_LOGIN w)) = r"
      and "r = NoReply
           \<or> (\<exists>st body. r = Reply st body \<and> (400 \<le> st \<and> st < 600 \<or> body = None))
           \<or> (\<exists>st kvs. r = Reply st (Some (JObj kvs)) \<and> map_of kvs ''token'' = None)"
  shows "fst (get_access_token (API_LOGIN w) w) = JNull
       \<and> main w = (NoAccessToken, w\<lparr>sent := sent w @ [access_token_request (API_LOGIN w)]\<rparr>)"
proof -
  have none: "fst (get_access_token (API_LOGIN w) w) = JNull"
    using access_token_try_failure [OF assms(2)] assms(1)
    by (simp add: get_access_token_fst)
  then have "main_token w =
      (Inl NoAccessToken, w\<lparr>sent := sent w @ [access_token_request (API_LOGIN w)]\<rparr>)"
    by (simp add: main_token_eq)
  then show ?thesis
    using none by (simp add: main_stops_at_token)
qed

text \<open>
  The three failures at the example service: the body \<open>{}\<close>, the status 503 with a
  body that is not JSON, and no reply. The line the operator has typed is still unread.
\<close>

theorem get_access_token_failure_witness:
  "fst (get_access_token (JStr ''login'') (example_world (Reply 200 (Some (JObj []))) order_ok []))
     = JNull
   \<and> fst (main (example_world (Reply 200 (Some (JObj []))) order_ok [''1''])) = NoAccessToken
   \<and> sent (snd (main (example_world (Reply 200 (Some (JObj []))) order_ok [''1''])))
       = [access_token_request (JStr ''login'')]
   \<and> stdin (snd (main (example_world (Reply 200 (Some (JObj []))) order_ok [''1''])))
       = [''1'']
   \<and> fst (main (example_world (Reply 503 None) order_ok [])) = NoAccessToken
   \<and> fst (main (example_world NoReply order_ok [])) = NoAccessToken"
  using get_access_token_failure [OF refl, of "example_world (Reply 200 (Some (JObj []))) order_ok []"]
        get_access_token_failure [OF refl, of "example_world (Reply 200 (Some (JObj []))) order_ok [''1'']"]
        get_access_token_failure [OF refl, of "example_world (Reply 503 None) order_ok []"]
        get_access_token_failure [OF refl, of "example_world NoReply order_ok []"]
  by (simp add: example_defs url_defs access_token_request_def)

text \<open>
  C6 as stated fails for a status code outside 200 to 299 that is no error code: a reply
  300 whose body holds a token yields that token, and the run goes on to create the order.
\<close>

theorem get_access_token_status_300_counterexample:
  "\<not> (200 \<le> (300::int) \<and> (300::int) < 300)
   \<and> fst (get_access_token (JStr ''login'')
            (example_world (Reply 300 (Some (JObj [(''token'', JStr ''tok'')]))) order_ok []))
       = JStr ''tok''
   \<and> fst (main (example_world (Reply 300 (Some (JObj [(''token'', JStr ''tok'')]))) order_ok
              [''1'', ''1'', ''1'', ''1'', '''', '''', ''p1'', ''10.0'', ''2.0'', '''']))
       = OrderCreated (JObj [(''orderInfo'', JObj [(''id'', JStr ''o1'')])])
   \<and> map req_url (sent (snd (main
        (example_world (Reply 300 (Some (JObj [(''token'', JStr ''tok'')]))) order_ok
              [''1'', ''1'', ''1'', ''1'', '''', '''', ''p1'', ''10.0'', ''2.0'', '''']))))
       = [access_token_url, organizations_url, terminal_groups_url, sections_url,
          payment_types_url, order_create_url]"
  by code_simp

section \<open>The default payment sum\<close>



section \<open>The phone of the customer\<close>

text \<open>
  C7 does not hold of the code. The prompt for the phone says that Enter means no phone,
  but the line typed is passed on unchanged and the order document always has the key
  phone: for the operator who presses Enter, the document sent holds the phone \<open>""\<close>.
\<close>

theorem blank_phone_is_sent:
  "map_option (order_field ''phone'')
     (req_json (last (sent (snd (main (example_world token_ok order_ok
        [''1'', ''1'', ''1'', ''1'', ''Ann'', '''', ''p1'', ''10.0'', ''2.0'', '''']))))))
     = Some (Some (JStr ''''))"
  by code_simp

section \<open>Submission\<close>




section \<open>Selections that are not a number of the list\<close>




section \<open>The single payment of an order\<close>

text \<open>
  C10. Whatever \<open>create_order\<close> is called with, it sends one request whose order holds
  exactly one payment, with paymentTypeKind "Cash" and the three flags false; the kind of
  the payment type the operator chose is no argument of \<open>create_order\<close> and reaches
  no field of the document. So at the example service, whose only payment type is of kind
  Card, the order that \<open>main\<close> sends has the kind Cash.
\<close>

theorem create_order_payment_is_cash:
  "sent (snd (create_order token organization_id terminal_group_id table_id name phone
                product price quantity payment_type_id amount_due w))
     = sent w @
       [order_create_request token
          (order_payload organization_id terminal_group_id table_id name phone product price
             quantity payment_type_id amount_due
             (uuid_source w (uuid_count w)) (uuid_source w (Suc (uuid_count w))))]
   \<and> order_field ''payments''
         (order_payload organization_id terminal_group_id table_id name phone product price
            quantity payment_type_id amount_due order_id position_id)
       = Some (JArr [JObj [(''paymentTypeKind'', JStr ''Cash''),
                           (''sum'', JFloat amount_due),
                           (''paymentTypeId'', payment_type_id),
                           (''isProcessedExternally'', JBool False),
                           (''isFiscalizedExternally'', JBool False),
                           (''isPrepay'', JBool False)]])
   \<and> map_option (order_field ''payments'')
         (req_json (last (sent (snd (main (example_world token_ok order_ok
            [''1'', ''1'', ''1'', ''1'', ''Ann'', '''', ''p1'', ''10.0'', ''2.0'', '''']))))))
       = Some (Some (JArr [JObj [(''paymentTypeKind'', JStr ''Cash''),
                                 (''sum'', JFloat (Finite 20)),
                                 (''paymentTypeId'', JStr ''pt1''),
                                 (''isProcessedExternally'', JBool False),
                                 (''isFiscalizedExternally'', JBool False),
                                 (''isPrepay'', JBool False)]]))"
proof -
  have run: "map_option (order_field ''payments'')
         (req_json (last (sent (snd (main (example_world token_ok order_ok
            [''1'', ''1'', ''1'', ''1'', ''Ann'', '''', ''p1'', ''10.0'', ''2.0'', '''']))))))
       = Some (Some (JArr [JObj [(''paymentTypeKind'', JStr ''Cash''),
                                 (''sum'', JFloat (Finite 20)),
                                 (''paymentTypeId'', JStr ''pt1''),
                                 (''isProcessedExternally'', JBool False),
                                 (''isFiscalizedExternally'', JBool False),
                                 (''isPrepay'', JBool False)]]))"
    by code_simp
  show ?thesis
    by (simp only: run) (simp add: create_order_sent order_field_def order_payload_def)
qed

end
